theory Spec2Isabelle
  imports Main "HOL-Library.Word"
begin

section \<open>Argus: the generated argument parser of \<^verbatim>\<open>includes/argus.h\<close>\<close>

text \<open>
  The header generates \<^verbatim>\<open>args_t\<close>, \<^verbatim>\<open>make_default_args\<close> and \<^verbatim>\<open>parse_args\<close> from three
  macro lists, \<^verbatim>\<open>REQUIRED_ARGS\<close>, \<^verbatim>\<open>OPTIONAL_ARGS\<close> and \<^verbatim>\<open>BOOLEAN_ARGS\<close>. Here the three
  lists are data (a \<open>schema\<close>), and every macro that the header expands once per list entry
  is a function of one descriptor, applied to the entries in declaration order.

  Conventions of the embedding:
  \<^item> a C string is a \<open>string\<close> without its terminating NUL; \<open>argv\<close> is a \<open>string list\<close> and
    \<open>argc\<close> its length;
  \<^item> \<^verbatim>\<open>args_t\<close> is a map from field names to typed values; every store through
    \<^verbatim>\<open>args->name\<close> is also appended to a log of writes;
  \<^item> \<^verbatim>\<open>errno\<close> is a component of the state;
  \<^item> every \<^verbatim>\<open>return 1\<close> of \<^verbatim>\<open>parse_args\<close> is an \<open>error\<close> value named after the diagnostic
    printed before it;
  \<^item> integer widths are those of an LP64 platform (\<^verbatim>\<open>int\<close> 32 bits, \<^verbatim>\<open>long\<close> and
    \<^verbatim>\<open>long long\<close> 64 bits), conversions to a narrower type truncate.
\<close>

subsection \<open>Values, fields and state\<close>

datatype ctype =
    TStr | TChar | TInt | TUInt | TLong | TULong | TLLong | TULLong | TSize
  | TFloat | TDouble | TLongDouble

datatype val =
    VNull
  | VStr string
  | VChar char
  | VInt "32 word"
  | VUInt "32 word"
  | VLong "64 word"
  | VULong "64 word"
  | VLLong "64 word"
  | VULLong "64 word"
  | VFloat "32 word"
  | VDouble "64 word"
  | VLongDouble "80 word"
  | VBool bool

text \<open>
  A floating-point value is its object representation (the bits of a \<^verbatim>\<open>float\<close>, a \<^verbatim>\<open>double\<close>,
  an x87 \<^verbatim>\<open>long double\<close>); no floating-point arithmetic is modelled.

  \<^verbatim>\<open>(type)0\<close>, the initial value of a required field.
\<close>

fun zero_of :: "ctype \<Rightarrow> val" where
  "zero_of TStr = VNull"
| "zero_of TChar = VChar (CHR 0x00)"
| "zero_of TInt = VInt 0"
| "zero_of TUInt = VUInt 0"
| "zero_of TLong = VLong 0"
| "zero_of TULong = VULong 0"
| "zero_of TLLong = VLLong 0"
| "zero_of TULLong = VULLong 0"
| "zero_of TSize = VULLong 0"
| "zero_of TFloat = VFloat 0"
| "zero_of TDouble = VDouble 0"
| "zero_of TLongDouble = VLongDouble 0"

record pstate =
  args :: "string \<rightharpoonup> val"
  wlog :: "string list"
  errno :: int

definition store :: "string \<Rightarrow> val \<Rightarrow> pstate \<Rightarrow> pstate" where
  "store n v st = st\<lparr>args := (args st)(n \<mapsto> v), wlog := wlog st @ [n]\<rparr>"

subsection \<open>Value parsers\<close>

text \<open>
  A parser is \<^verbatim>\<open>int parser(const char* text, type* out, char** advance)\<close>. Its model takes
  the text, whether \<^verbatim>\<open>advance\<close> is non-null, and \<^verbatim>\<open>errno\<close> at the call; it yields the return
  value, the value stored through \<^verbatim>\<open>out\<close> (if any), what was stored through \<^verbatim>\<open>advance\<close>
  (nothing, \<^verbatim>\<open>NULL\<close>, or \<^verbatim>\<open>text + k\<close>) and \<^verbatim>\<open>errno\<close> afterwards.
\<close>

datatype advance = NotStored | StoredNull | StoredAt nat

record presult =
  pr_ret :: int
  pr_out :: "val option"
  pr_adv :: advance
  pr_errno :: int

type_synonym parser = "string \<Rightarrow> bool \<Rightarrow> int \<Rightarrow> presult"

definition parse_str :: parser where
  "parse_str text has_adv e =
     \<lparr>pr_ret = 0, pr_out = Some (VStr text),
      pr_adv = (if has_adv then StoredNull else NotStored), pr_errno = e\<rparr>"

text \<open>\<^verbatim>\<open>text[0]\<close> of the empty string is the terminating NUL.\<close>

definition parse_char :: parser where
  "parse_char text has_adv e =
     \<lparr>pr_ret = 0,
      pr_out = Some (VChar (case text of [] \<Rightarrow> CHR 0x00 | c # _ \<Rightarrow> c)),
      pr_adv = (if has_adv then StoredAt 1 else NotStored), pr_errno = e\<rparr>"

subsubsection \<open>The C library conversions \<^verbatim>\<open>strtol\<close>, \<^verbatim>\<open>strtoul\<close>, \<^verbatim>\<open>strtoll\<close>, \<^verbatim>\<open>strtoull\<close>\<close>

text \<open>
  Modelled from ISO C 7.22.1.4 for base 10 in the C locale: leading white space is skipped,
  an optional sign is read, then the longest run of decimal digits. With no digit, no
  conversion is performed: the result is 0 and the end pointer is \<^verbatim>\<open>text\<close> itself. A value
  out of range is clamped and \<^verbatim>\<open>errno\<close> becomes \<^verbatim>\<open>ERANGE\<close>. POSIX lets an implementation
  set \<^verbatim>\<open>errno\<close> to \<^verbatim>\<open>EINVAL\<close> when no conversion is performed (the BSD libraries do, glibc and
  musl do not): the flag \<open>einval\<close> chooses.
\<close>

definition ERANGE :: int where "ERANGE = 34"
definition EINVAL :: int where "EINVAL = 22"

definition isspace :: "char \<Rightarrow> bool" where
  "isspace c = (c = CHR '' '' \<or> c = CHR 0x09 \<or> c = CHR 0x0A \<or> c = CHR 0x0B
               \<or> c = CHR 0x0C \<or> c = CHR 0x0D)"

definition isdigit :: "char \<Rightarrow> bool" where
  "isdigit c = (48 \<le> (of_char c :: nat) \<and> (of_char c :: nat) \<le> 57)"

definition digits_value :: "string \<Rightarrow> nat" where
  "digits_value ds = foldl (\<lambda>a c. 10 * a + (of_char c - 48)) 0 ds"

record subject =
  sj_neg :: bool
  sj_digits :: string
  sj_end :: nat

definition subject_of :: "string \<Rightarrow> subject" where
  "subject_of text =
     (let ws = takeWhile isspace text;
          s1 = dropWhile isspace text;
          sgn = (case s1 of [] \<Rightarrow> 0 | c # _ \<Rightarrow> if c = CHR ''-'' \<or> c = CHR ''+'' then 1 else 0);
          neg = (case s1 of [] \<Rightarrow> False | c # _ \<Rightarrow> c = CHR ''-'');
          ds = takeWhile isdigit (drop sgn s1)
      in \<lparr>sj_neg = neg, sj_digits = ds,
          sj_end = (if ds = [] then 0 else length ws + sgn + length ds)\<rparr>)"

record 'a conv =
  cv_val :: 'a
  cv_end :: nat
  cv_errno :: "int option"

definition strtol :: "bool \<Rightarrow> string \<Rightarrow> 64 word conv" where
  "strtol einval text =
     (let sj = subject_of text; n = int (digits_value (sj_digits sj));
          m = (if sj_neg sj then - n else n)
      in if sj_digits sj = [] then
           \<lparr>cv_val = 0, cv_end = 0, cv_errno = (if einval then Some EINVAL else None)\<rparr>
         else if m > 2 ^ 63 - 1 then
           \<lparr>cv_val = word_of_int (2 ^ 63 - 1), cv_end = sj_end sj, cv_errno = Some ERANGE\<rparr>
         else if m < - (2 ^ 63) then
           \<lparr>cv_val = word_of_int (- (2 ^ 63)), cv_end = sj_end sj, cv_errno = Some ERANGE\<rparr>
         else \<lparr>cv_val = word_of_int m, cv_end = sj_end sj, cv_errno = None\<rparr>)"

definition strtoul :: "bool \<Rightarrow> string \<Rightarrow> 64 word conv" where
  "strtoul einval text =
     (let sj = subject_of text; n = int (digits_value (sj_digits sj))
      in if sj_digits sj = [] then
           \<lparr>cv_val = 0, cv_end = 0, cv_errno = (if einval then Some EINVAL else None)\<rparr>
         else if n > 2 ^ 64 - 1 then
           \<lparr>cv_val = word_of_int (2 ^ 64 - 1), cv_end = sj_end sj, cv_errno = Some ERANGE\<rparr>
         else \<lparr>cv_val = (if sj_neg sj then - word_of_int n else word_of_int n),
               cv_end = sj_end sj, cv_errno = None\<rparr>)"

definition strtoll :: "bool \<Rightarrow> string \<Rightarrow> 64 word conv" where
  "strtoll = strtol"

definition strtoull :: "bool \<Rightarrow> string \<Rightarrow> 64 word conv" where
  "strtoull = strtoul"

text \<open>
  \<^verbatim>\<open>NUMBER_PARSER(type, shorthand, func)\<close>: the converted value is stored first, then
  \<^verbatim>\<open>errno\<close> is tested. \<^verbatim>\<open>errno\<close> is never cleared, so a non-zero \<^verbatim>\<open>errno\<close> at the call fails
  the parser too.
\<close>

definition NUMBER_PARSER :: "('a \<Rightarrow> val) \<Rightarrow> (string \<Rightarrow> 'a conv) \<Rightarrow> parser" where
  "NUMBER_PARSER cast func text has_adv e =
     (let c = func text;
          e' = (case cv_errno c of None \<Rightarrow> e | Some x \<Rightarrow> x)
      in \<lparr>pr_ret = (if e' \<noteq> 0 then 1 else 0),
          pr_out = Some (cast (cv_val c)),
          pr_adv = (if has_adv then StoredAt (cv_end c) else NotStored),
          pr_errno = e'\<rparr>)"

text \<open>
  \<^verbatim>\<open>FLOAT_PARSER(type, shorthand, func)\<close> is the same body around \<^verbatim>\<open>func(text, advance)\<close>. The
  conversions \<^verbatim>\<open>strtof\<close>, \<^verbatim>\<open>strtod\<close> and \<^verbatim>\<open>strtold\<close> of the C library are parameters: any
  function from the text to a value, an end pointer and the \<^verbatim>\<open>errno\<close> it sets, if any.
\<close>

definition FLOAT_PARSER :: "('a \<Rightarrow> val) \<Rightarrow> (string \<Rightarrow> 'a conv) \<Rightarrow> parser" where
  "FLOAT_PARSER cast func text has_adv e =
     (let c = func text;
          e' = (case cv_errno c of None \<Rightarrow> e | Some x \<Rightarrow> x)
      in \<lparr>pr_ret = (if e' \<noteq> 0 then 1 else 0),
          pr_out = Some (cast (cv_val c)),
          pr_adv = (if has_adv then StoredAt (cv_end c) else NotStored),
          pr_errno = e'\<rparr>)"

definition parse_ull :: "bool \<Rightarrow> parser" where
  "parse_ull einval = NUMBER_PARSER VULLong (strtoull einval)"

definition parse_ul :: "bool \<Rightarrow> parser" where
  "parse_ul einval = NUMBER_PARSER VULong (strtoul einval)"

definition parse_ll :: "bool \<Rightarrow> parser" where
  "parse_ll einval = NUMBER_PARSER VLLong (strtoll einval)"

definition parse_l :: "bool \<Rightarrow> parser" where
  "parse_l einval = NUMBER_PARSER VLong (strtol einval)"

definition parse_uint :: "bool \<Rightarrow> parser" where
  "parse_uint einval = NUMBER_PARSER (\<lambda>w. VUInt (ucast w)) (strtoul einval)"

definition parse_int :: "bool \<Rightarrow> parser" where
  "parse_int einval = NUMBER_PARSER (\<lambda>w. VInt (ucast w)) (strtol einval)"

definition parse_f :: "(string \<Rightarrow> 32 word conv) \<Rightarrow> parser" where
  "parse_f strtof = FLOAT_PARSER VFloat strtof"

definition parse_d :: "(string \<Rightarrow> 64 word conv) \<Rightarrow> parser" where
  "parse_d strtod = FLOAT_PARSER VDouble strtod"

definition parse_ld :: "(string \<Rightarrow> 80 word conv) \<Rightarrow> parser" where
  "parse_ld strtold = FLOAT_PARSER VLongDouble strtold"

subsection \<open>The schema\<close>

record required_arg =
  r_type :: ctype
  r_name :: string
  r_label :: string
  r_description :: string
  r_parser :: parser

text \<open>An absent short or long option is the sentinel \<^verbatim>\<open>NONE\<close> of the header.\<close>

record optional_arg =
  o_type :: ctype
  o_name :: string
  o_shortopt :: "char option"
  o_longopt :: "string option"
  o_arg_label :: string
  o_default :: val
  o_description :: string
  o_formatter :: string
  o_parser :: parser

record boolean_arg =
  b_name :: string
  b_shortopt :: "char option"
  b_longopt :: "string option"
  b_description :: string

record schema =
  REQUIRED_ARGS :: "required_arg list"
  OPTIONAL_ARGS :: "optional_arg list"
  BOOLEAN_ARGS :: "boolean_arg list"

definition REQUIRED_ARG_COUNT :: "schema \<Rightarrow> nat" where
  "REQUIRED_ARG_COUNT sch = length (REQUIRED_ARGS sch)"

definition REQUIRED_STRING_ARG :: "string \<Rightarrow> string \<Rightarrow> string \<Rightarrow> required_arg" where
  "REQUIRED_STRING_ARG name label description =
     \<lparr>r_type = TStr, r_name = name, r_label = label, r_description = description,
      r_parser = parse_str\<rparr>"

definition REQUIRED_INT_ARG :: "bool \<Rightarrow> string \<Rightarrow> string \<Rightarrow> string \<Rightarrow> required_arg" where
  "REQUIRED_INT_ARG einval name label description =
     \<lparr>r_type = TInt, r_name = name, r_label = label, r_description = description,
      r_parser = parse_int einval\<rparr>"

definition REQUIRED_UINT_ARG :: "bool \<Rightarrow> string \<Rightarrow> string \<Rightarrow> string \<Rightarrow> required_arg" where
  "REQUIRED_UINT_ARG einval name label description =
     \<lparr>r_type = TUInt, r_name = name, r_label = label, r_description = description,
      r_parser = parse_uint einval\<rparr>"

definition REQUIRED_DOUBLE_ARG ::
  "(string \<Rightarrow> 64 word conv) \<Rightarrow> string \<Rightarrow> string \<Rightarrow> string \<Rightarrow> required_arg"
where
  "REQUIRED_DOUBLE_ARG strtod name label description =
     \<lparr>r_type = TDouble, r_name = name, r_label = label, r_description = description,
      r_parser = parse_d strtod\<rparr>"

definition OPTIONAL_UINT_ARG ::
  "bool \<Rightarrow> string \<Rightarrow> char option \<Rightarrow> string option \<Rightarrow> string \<Rightarrow> 32 word \<Rightarrow> string \<Rightarrow> optional_arg"
where
  "OPTIONAL_UINT_ARG einval name shortopt longopt arg_label dflt description =
     \<lparr>o_type = TUInt, o_name = name, o_shortopt = shortopt, o_longopt = longopt,
      o_arg_label = arg_label, o_default = VUInt dflt, o_description = description,
      o_formatter = ''%u'', o_parser = parse_uint einval\<rparr>"

definition BOOLEAN_ARG :: "string \<Rightarrow> char option \<Rightarrow> string option \<Rightarrow> string \<Rightarrow> boolean_arg" where
  "BOOLEAN_ARG name shortopt longopt description =
     \<lparr>b_name = name, b_shortopt = shortopt, b_longopt = longopt, b_description = description\<rparr>"

subsection \<open>\<^verbatim>\<open>make_default_args\<close>\<close>

text \<open>
  The designated initialisers, in the order required, optional, boolean: a later
  initialiser of the same field would override an earlier one.
\<close>

definition make_default_args :: "schema \<Rightarrow> string \<rightharpoonup> val" where
  "make_default_args sch =
     map_of (rev (map (\<lambda>r. (r_name r, zero_of (r_type r))) (REQUIRED_ARGS sch)
                @ map (\<lambda>p. (o_name p, o_default p)) (OPTIONAL_ARGS sch)
                @ map (\<lambda>b. (b_name b, VBool False)) (BOOLEAN_ARGS sch)))"

subsection \<open>Errors and control flow of \<^verbatim>\<open>parse_args\<close>\<close>

datatype error =
    InternalError
  | MissingRequiredArgument
  | InvalidValue string string
  | OptionRequiresValue string
  | TrailingUnparsedInput string string
  | UnknownFlag string
  | UnexpectedPositionalArgument string
  | OutOfBoundsRead

text \<open>
  What one generated block does to the enclosing loop: it returns 1, it executes
  \<^verbatim>\<open>continue\<close>, or control falls through to the next block.
\<close>

datatype flow = Return error | Continue | Fallthrough

text \<open>A parser call with \<^verbatim>\<open>&args->name\<close> as \<^verbatim>\<open>out\<close>.\<close>

definition call_parser :: "parser \<Rightarrow> string \<Rightarrow> string \<Rightarrow> bool \<Rightarrow> pstate \<Rightarrow> presult \<times> pstate" where
  "call_parser p text name has_adv st =
     (let r = p text has_adv (errno st);
          st1 = (case pr_out r of None \<Rightarrow> st | Some v \<Rightarrow> store name v st)
      in (r, st1\<lparr>errno := pr_errno r\<rparr>))"

subsection \<open>Phase 1: required arguments\<close>

text \<open>
  \<^verbatim>\<open>parser(argv[i++], &args->name, NULL)\<close> for each required descriptor. The list of tokens
  is \<^verbatim>\<open>argv[i..]\<close>; the test on \<^verbatim>\<open>argc\<close> in \<^verbatim>\<open>parse_args\<close> keeps it from running out, so the
  second equation is never used by \<^verbatim>\<open>parse_args\<close>.
\<close>

fun required_phase :: "required_arg list \<Rightarrow> string list \<Rightarrow> pstate \<Rightarrow> error option \<times> pstate" where
  "required_phase [] ts st = (None, st)"
| "required_phase (r # rs) [] st = (Some MissingRequiredArgument, st)"
| "required_phase (r # rs) (t # ts) st =
     (case call_parser (r_parser r) t (r_name r) False st of
        (res, st') \<Rightarrow>
          if pr_ret res \<noteq> 0 then (Some (InvalidValue (r_name r) t), st')
          else required_phase rs ts st')"

subsection \<open>Phase 2: long options\<close>

text \<open>
  \<^verbatim>\<open>GENERATE_LONG_OPT(name, longopt, parser)\<close> at the token \<open>tok = argv[i]\<close>, with \<open>rest\<close> the
  tokens after it: \<open>rest\<close> is empty when \<^verbatim>\<open>i + 1 >= argc\<close>, and its head is \<^verbatim>\<open>argv[++i]\<close>. The
  block ends in \<^verbatim>\<open>continue\<close> only after \<^verbatim>\<open>++i\<close>, with \<^verbatim>\<open>i\<close> on the value token.
\<close>

definition GENERATE_LONG_OPT ::
  "string \<Rightarrow> string \<Rightarrow> parser \<Rightarrow> string \<Rightarrow> string list \<Rightarrow> pstate \<Rightarrow> flow \<times> pstate"
where
  "GENERATE_LONG_OPT name longopt p tok rest st =
     (if tok = ''--'' @ longopt then
        (case rest of
           [] \<Rightarrow> (Return (OptionRequiresValue (''--'' @ longopt)), st)
         | v # _ \<Rightarrow>
             (case call_parser p v name True st of
                (res, st') \<Rightarrow>
                  if pr_ret res \<noteq> 0 then (Return (InvalidValue name v), st')
                  else
                    (case pr_adv res of
                       StoredAt k \<Rightarrow>
                         if k < length v then
                           (Return (TrailingUnparsedInput (''--'' @ longopt) v), st')
                         else if k = length v then (Continue, st')
                         else (Return OutOfBoundsRead, st')
                     | _ \<Rightarrow> (Continue, st'))))
      else (Fallthrough, st))"

fun long_opts :: "optional_arg list \<Rightarrow> string \<Rightarrow> string list \<Rightarrow> pstate \<Rightarrow> flow \<times> pstate" where
  "long_opts [] tok rest st = (Fallthrough, st)"
| "long_opts (p # ps) tok rest st =
     (case o_longopt p of
        None \<Rightarrow> long_opts ps tok rest st
      | Some l \<Rightarrow>
          (case GENERATE_LONG_OPT (o_name p) l (o_parser p) tok rest st of
             (Fallthrough, _) \<Rightarrow> long_opts ps tok rest st
           | out \<Rightarrow> out))"

definition GENERATE_LONG_BOOL :: "string \<Rightarrow> string \<Rightarrow> string \<Rightarrow> pstate \<Rightarrow> flow \<times> pstate" where
  "GENERATE_LONG_BOOL name longopt tok st =
     (if tok = ''--'' @ longopt then (Continue, store name (VBool True) st)
      else (Fallthrough, st))"

fun long_bools :: "boolean_arg list \<Rightarrow> string \<Rightarrow> pstate \<Rightarrow> flow \<times> pstate" where
  "long_bools [] tok st = (Fallthrough, st)"
| "long_bools (b # bs) tok st =
     (case b_longopt b of
        None \<Rightarrow> long_bools bs tok st
      | Some l \<Rightarrow>
          (case GENERATE_LONG_BOOL (b_name b) l tok st of
             (Fallthrough, _) \<Rightarrow> long_bools bs tok st
           | out \<Rightarrow> out))"

subsection \<open>Phase 2: clusters of short flags\<close>

text \<open>
  \<^verbatim>\<open>curr_flag\<close> is \<open>None\<close> for \<^verbatim>\<open>NULL\<close> and \<open>Some s\<close> for a pointer to the string \<open>s\<close>.
  A block of the \<^verbatim>\<open>while\<close> body returns 1, executes \<^verbatim>\<open>continue\<close> with a new \<^verbatim>\<open>curr_flag\<close>, or
  falls through to the next block with \<^verbatim>\<open>curr_flag\<close> pointing to a non-empty string.
\<close>

datatype step = SReturn error | SContinue "string option" | SFall string

text \<open>
  \<^verbatim>\<open>GENERATE_SHORT_OPT(name, shortopt, parser)\<close> is entered with \<^verbatim>\<open>curr_flag\<close> pointing to \<open>cf\<close>.
  The parser reads \<^verbatim>\<open>curr_flag + 1\<close> and stores its end pointer in \<^verbatim>\<open>curr_flag\<close>; a pointer
  beyond the terminating NUL cannot be read. A parser that stores nothing leaves
  \<^verbatim>\<open>curr_flag\<close> on the option character.
\<close>

definition GENERATE_SHORT_OPT ::
  "string \<Rightarrow> char \<Rightarrow> parser \<Rightarrow> string \<Rightarrow> pstate \<Rightarrow> step \<times> pstate"
where
  "GENERATE_SHORT_OPT name shortopt p cf st =
     (case cf of
        [] \<Rightarrow> (SFall cf, st)
      | c # text \<Rightarrow>
          if c = shortopt then
            (if text = [] then (SReturn (OptionRequiresValue [CHR ''-'', shortopt]), st)
             else
               (case call_parser p text name True st of
                  (res, st') \<Rightarrow>
                    if pr_ret res \<noteq> 0 then (SReturn (InvalidValue name text), st')
                    else
                      (case pr_adv res of
                         NotStored \<Rightarrow> (SFall cf, st')
                       | StoredNull \<Rightarrow> (SContinue None, st')
                       | StoredAt k \<Rightarrow>
                           if k < length text then (SFall (drop k text), st')
                           else if k = length text then (SContinue (Some []), st')
                           else (SReturn OutOfBoundsRead, st'))))
          else (SFall cf, st))"

fun short_opts :: "optional_arg list \<Rightarrow> string \<Rightarrow> pstate \<Rightarrow> step \<times> pstate" where
  "short_opts [] cf st = (SFall cf, st)"
| "short_opts (p # ps) cf st =
     (case o_shortopt p of
        None \<Rightarrow> short_opts ps cf st
      | Some s \<Rightarrow>
          (case GENERATE_SHORT_OPT (o_name p) s (o_parser p) cf st of
             (SFall cf', st') \<Rightarrow> short_opts ps cf' st'
           | out \<Rightarrow> out))"

text \<open>
  \<^verbatim>\<open>GENERATE_SHORT_BOOL(name, shortopt)\<close>: on a match the field becomes true, \<^verbatim>\<open>curr_flag\<close>
  moves one character on and the \<^verbatim>\<open>while\<close> loop continues.
\<close>

definition GENERATE_SHORT_BOOL :: "string \<Rightarrow> char \<Rightarrow> string \<Rightarrow> pstate \<Rightarrow> step \<times> pstate" where
  "GENERATE_SHORT_BOOL name shortopt cf st =
     (case cf of
        [] \<Rightarrow> (SFall cf, st)
      | c # cs \<Rightarrow>
          if c = shortopt then (SContinue (Some cs), store name (VBool True) st)
          else (SFall cf, st))"

fun short_bools :: "boolean_arg list \<Rightarrow> string \<Rightarrow> pstate \<Rightarrow> step \<times> pstate" where
  "short_bools [] cf st = (SFall cf, st)"
| "short_bools (b # bs) cf st =
     (case b_shortopt b of
        None \<Rightarrow> short_bools bs cf st
      | Some s \<Rightarrow>
          (case GENERATE_SHORT_BOOL (b_name b) s cf st of
             (SFall cf', st') \<Rightarrow> short_bools bs cf' st'
           | out \<Rightarrow> out))"

definition ptr_len :: "string option \<Rightarrow> nat" where
  "ptr_len cf = (case cf of None \<Rightarrow> 0 | Some s \<Rightarrow> length s)"

text \<open>
  \<^verbatim>\<open>while (curr_flag != NULL && *curr_flag != '\0')\<close>: in the body the value-taking short
  options (\<^verbatim>\<open>OPTIONAL_ARGS\<close>) come first, then the boolean ones (\<^verbatim>\<open>BOOLEAN_ARGS\<close>), then the
  diagnostic \<^verbatim>\<open>Invalid flag\<close>.
\<close>

function flag_loop :: "schema \<Rightarrow> string option \<Rightarrow> pstate \<Rightarrow> error option \<times> pstate" where
  "flag_loop sch None st = (None, st)"
| "flag_loop sch (Some []) st = (None, st)"
| "flag_loop sch (Some (c # cs)) st =
     (case short_opts (OPTIONAL_ARGS sch) (c # cs) st of
        (SReturn e, st1) \<Rightarrow> (Some e, st1)
      | (SContinue cf1, st1) \<Rightarrow> flag_loop sch cf1 st1
      | (SFall cf1, st1) \<Rightarrow>
          (case short_bools (BOOLEAN_ARGS sch) cf1 st1 of
             (SReturn e, st2) \<Rightarrow> (Some e, st2)
           | (SContinue cf2, st2) \<Rightarrow> flag_loop sch cf2 st2
           | (SFall cf2, st2) \<Rightarrow> (Some (UnknownFlag cf2), st2)))"
  by pat_completeness auto
termination
proof -
  have opt_cont: "ptr_len cf' = 0"
    if "GENERATE_SHORT_OPT n s p cf st = (SContinue cf', st')" for n s p cf st cf' st'
    using that
    by (auto simp: GENERATE_SHORT_OPT_def ptr_len_def
             split: list.splits if_splits prod.splits advance.splits)
  have opt_fall: "length cf' \<le> length cf \<and> cf' \<noteq> []"
    if "GENERATE_SHORT_OPT n s p cf st = (SFall cf', st')" "cf \<noteq> []" for n s p cf st cf' st'
    using that
    by (auto simp: GENERATE_SHORT_OPT_def
             split: list.splits if_splits prod.splits advance.splits)
  have opts_cont: "ptr_len cf' = 0"
    if "short_opts ps cf st = (SContinue cf', st')" "cf \<noteq> []" for ps cf st cf' st'
    using that
  proof (induction ps arbitrary: cf st)
    case Nil
    then show ?case by simp
  next
    case (Cons p ps)
    then show ?case
      by (auto split: option.splits prod.splits step.splits dest: opt_cont opt_fall)
  qed
  have opts_fall: "length cf' \<le> length cf \<and> cf' \<noteq> []"
    if "short_opts ps cf st = (SFall cf', st')" "cf \<noteq> []" for ps cf st cf' st'
    using that
  proof (induction ps arbitrary: cf st)
    case Nil
    then show ?case by simp
  next
    case (Cons p ps)
    then show ?case
      by (fastforce split: option.splits prod.splits step.splits dest: opt_fall)
  qed
  have bool_cont: "ptr_len cf' < length cf"
    if "GENERATE_SHORT_BOOL n s cf st = (SContinue cf', st')" for n s cf st cf' st'
    using that
    by (auto simp: GENERATE_SHORT_BOOL_def ptr_len_def split: list.splits if_splits)
  have bool_fall: "cf' = cf"
    if "GENERATE_SHORT_BOOL n s cf st = (SFall cf', st')" for n s cf st cf' st'
    using that
    by (auto simp: GENERATE_SHORT_BOOL_def split: list.splits if_splits)
  have bools_cont: "ptr_len cf' < length cf"
    if "short_bools bs cf st = (SContinue cf', st')" for bs cf st cf' st'
    using that
  proof (induction bs arbitrary: cf st)
    case Nil
    then show ?case by simp
  next
    case (Cons b bs)
    then show ?case
      by (auto split: option.splits prod.splits step.splits dest: bool_cont bool_fall)
  qed
  show ?thesis
  proof (relation "measure (\<lambda>(sch, cf, st). ptr_len cf)", goal_cases)
    case 1
    show ?case by simp
  next
    case (2 sch c cs st x st1 cf1)
    then have "short_opts (OPTIONAL_ARGS sch) (c # cs) st = (SContinue cf1, st1)"
      by simp
    from opts_cont [OF this] 2 show ?case
      by (simp add: ptr_len_def)
  next
    case (3 sch c cs st x st1 cf1 y st2 cf2)
    then have a: "short_opts (OPTIONAL_ARGS sch) (c # cs) st = (SFall cf1, st1)"
      and b: "short_bools (BOOLEAN_ARGS sch) cf1 st1 = (SContinue cf2, st2)"
      by simp_all
    from opts_fall [OF a] bools_cont [OF b] 3 show ?case
      by (simp add: ptr_len_def)
  qed
qed

subsection \<open>Phase 2: the loop over the remaining tokens\<close>

text \<open>
  \<^verbatim>\<open>for (int i = 1 + REQUIRED_ARG_COUNT; i < argc; i++)\<close>, on the list \<^verbatim>\<open>argv[i..]\<close>: the long
  value options, the long boolean options, then a token starting with \<^verbatim>\<open>'-'\<close> as a cluster,
  else the diagnostic \<^verbatim>\<open>Invalid argument\<close>. After a long value option the loop goes on behind
  the value token.
\<close>

function option_loop :: "schema \<Rightarrow> string list \<Rightarrow> pstate \<Rightarrow> error option \<times> pstate" where
  "option_loop sch [] st = (None, st)"
| "option_loop sch (tok # rest) st =
     (case long_opts (OPTIONAL_ARGS sch) tok rest st of
        (Return e, st1) \<Rightarrow> (Some e, st1)
      | (Continue, st1) \<Rightarrow> option_loop sch (tl rest) st1
      | (Fallthrough, _) \<Rightarrow>
          (case long_bools (BOOLEAN_ARGS sch) tok st of
             (Return e, st1) \<Rightarrow> (Some e, st1)
           | (Continue, st1) \<Rightarrow> option_loop sch rest st1
           | (Fallthrough, _) \<Rightarrow>
               (case tok of
                  [] \<Rightarrow> (Some (UnexpectedPositionalArgument tok), st)
                | c # cf \<Rightarrow>
                    if c = CHR ''-'' then
                      (case flag_loop sch (Some cf) st of
                         (Some e, st1) \<Rightarrow> (Some e, st1)
                       | (None, st1) \<Rightarrow> option_loop sch rest st1)
                    else (Some (UnexpectedPositionalArgument tok), st))))"
  by pat_completeness auto
termination
  by (relation "measure (\<lambda>(sch, ts, st). length ts)") auto

subsection \<open>\<^verbatim>\<open>parse_args\<close>\<close>

definition parse_args :: "schema \<Rightarrow> string list \<Rightarrow> pstate \<Rightarrow> error option \<times> pstate" where
  "parse_args sch argv st =
     (if argv = [] then (Some InternalError, st)
      else if length argv < 1 + REQUIRED_ARG_COUNT sch then (Some MissingRequiredArgument, st)
      else
        (case required_phase (REQUIRED_ARGS sch) (drop 1 argv) st of
           (Some e, st1) \<Rightarrow> (Some e, st1)
         | (None, st1) \<Rightarrow> option_loop sch (drop (1 + REQUIRED_ARG_COUNT sch) argv) st1))"

text \<open>
  The first statements of every example's \<^verbatim>\<open>main\<close>: \<^verbatim>\<open>args_t args = make_default_args();\<close>
  then \<^verbatim>\<open>parse_args(argc, argv, &args)\<close>, with \<^verbatim>\<open>errno\<close> zero as at program start.
\<close>

definition initial_state :: "schema \<Rightarrow> pstate" where
  "initial_state sch = \<lparr>args = make_default_args sch, wlog = [], errno = 0\<rparr>"

definition main_parse :: "schema \<Rightarrow> string list \<Rightarrow> error option \<times> pstate" where
  "main_parse sch argv = parse_args sch argv (initial_state sch)"

subsection \<open>The schema of \<^verbatim>\<open>examples/01_file_processor.c\<close>\<close>

definition file_processor :: "bool \<Rightarrow> schema" where
  "file_processor einval =
     \<lparr>REQUIRED_ARGS =
        [REQUIRED_STRING_ARG ''input_file'' ''input'' ''Input file path'',
         REQUIRED_STRING_ARG ''output_file'' ''output'' ''Output file path''],
      OPTIONAL_ARGS =
        [OPTIONAL_UINT_ARG einval ''threads'' (Some CHR ''t'') (Some ''threads'') ''threads'' 1
           ''Number of threads to use''],
      BOOLEAN_ARGS = [BOOLEAN_ARG ''help'' (Some CHR ''h'') (Some ''help'') ''Show help'']\<rparr>"

subsection \<open>Further schemas\<close>

text \<open>\<^verbatim>\<open>#define REQUIRED_ARGS REQUIRED_INT_ARG(count, "count", "A number")\<close>\<close>

definition single_int :: "bool \<Rightarrow> schema" where
  "single_int einval =
     \<lparr>REQUIRED_ARGS = [REQUIRED_INT_ARG einval ''count'' ''count'' ''A number''],
      OPTIONAL_ARGS = [],
      BOOLEAN_ARGS = []\<rparr>"

text \<open>
  \<^verbatim>\<open>#define OPTIONAL_ARGS OPTIONAL_UINT_ARG(t, t, NONE, "n", 0, "A number")\<close> and
  \<^verbatim>\<open>#define BOOLEAN_ARGS BOOLEAN_ARG(v, v, NONE, "v") BOOLEAN_ARG(x, x, NONE, "x")\<close>
\<close>

definition cluster_flags :: "bool \<Rightarrow> schema" where
  "cluster_flags einval =
     \<lparr>REQUIRED_ARGS = [],
      OPTIONAL_ARGS = [OPTIONAL_UINT_ARG einval ''t'' (Some CHR ''t'') None ''n'' 0 ''A number''],
      BOOLEAN_ARGS =
        [BOOLEAN_ARG ''v'' (Some CHR ''v'') None ''v'',
         BOOLEAN_ARG ''x'' (Some CHR ''x'') None ''x'']\<rparr>"

text \<open>
  A schema in which the character \<^verbatim>\<open>t\<close> is both a value-taking and a boolean short option:
  \<^verbatim>\<open>#define OPTIONAL_ARGS OPTIONAL_UINT_ARG(threads, t, threads, "threads", 1, "Threads")\<close> and
  \<^verbatim>\<open>#define BOOLEAN_ARGS BOOLEAN_ARG(trace, t, trace, "Trace") BOOLEAN_ARG(help, h, help, "Help")\<close>
\<close>

definition shared_letter :: "bool \<Rightarrow> schema" where
  "shared_letter einval =
     \<lparr>REQUIRED_ARGS = [],
      OPTIONAL_ARGS =
        [OPTIONAL_UINT_ARG einval ''threads'' (Some CHR ''t'') (Some ''threads'') ''threads'' 1
           ''Threads''],
      BOOLEAN_ARGS =
        [BOOLEAN_ARG ''trace'' (Some CHR ''t'') (Some ''trace'') ''Trace'',
         BOOLEAN_ARG ''help'' (Some CHR ''h'') (Some ''help'') ''Help'']\<rparr>"

text \<open>
  Two value-taking short options:
  \<^verbatim>\<open>#define OPTIONAL_ARGS OPTIONAL_UINT_ARG(t, t, NONE, "n", 0, "T") OPTIONAL_UINT_ARG(a, a, NONE, "n", 0, "A")\<close>
\<close>

definition two_values :: "bool \<Rightarrow> schema" where
  "two_values einval =
     \<lparr>REQUIRED_ARGS = [],
      OPTIONAL_ARGS =
        [OPTIONAL_UINT_ARG einval ''t'' (Some CHR ''t'') None ''n'' 0 ''T'',
         OPTIONAL_UINT_ARG einval ''a'' (Some CHR ''a'') None ''n'' 0 ''A''],
      BOOLEAN_ARGS = []\<rparr>"

subsection \<open>The log of writes\<close>

text \<open>
  \<open>grows A st st'\<close>: from \<open>st\<close> to \<open>st'\<close> only fields of \<open>A\<close> were stored. \<open>option_fields\<close> are
  the fields of the optional and boolean descriptors.
\<close>

definition grows :: "string set \<Rightarrow> pstate \<Rightarrow> pstate \<Rightarrow> bool" where
  "grows A st st' = (\<exists>ws. wlog st' = wlog st @ ws \<and> set ws \<subseteq> A)"


section \<open>Evaluation\<close>

lemmas engine_defs =
  main_parse_def parse_args_def initial_state_def REQUIRED_ARG_COUNT_def
  make_default_args_def call_parser_def store_def
  GENERATE_LONG_OPT_def GENERATE_LONG_BOOL_def GENERATE_SHORT_OPT_def GENERATE_SHORT_BOOL_def

lemmas parser_defs =
  parse_str_def parse_char_def parse_uint_def parse_int_def parse_d_def NUMBER_PARSER_def
  FLOAT_PARSER_def
  strtoul_def strtol_def subject_of_def digits_value_def isspace_def isdigit_def
  ERANGE_def EINVAL_def

lemmas schema_defs =
  file_processor_def single_int_def cluster_flags_def shared_letter_def two_values_def

lemmas macro_defs =
  REQUIRED_STRING_ARG_def REQUIRED_INT_ARG_def REQUIRED_UINT_ARG_def REQUIRED_DOUBLE_ARG_def
  OPTIONAL_UINT_ARG_def BOOLEAN_ARG_def

section \<open>The chains of generated blocks\<close>

text \<open>A token that does not start with two markers matches no long option.\<close>

lemma long_opts_no_marker:
  "(\<And>l. tok \<noteq> ''--'' @ l) \<Longrightarrow> long_opts ps tok rest st = (Fallthrough, st)"
  by (induction ps) (auto simp: GENERATE_LONG_OPT_def split: option.splits)

lemma long_bools_no_marker:
  "(\<And>l. tok \<noteq> ''--'' @ l) \<Longrightarrow> long_bools bs tok st = (Fallthrough, st)"
  by (induction bs) (auto simp: GENERATE_LONG_BOOL_def split: option.splits)

text \<open>Descriptors with another long or short option are passed over.\<close>

lemma long_opts_skip:
  "Some l \<notin> set (map o_longopt pre) \<Longrightarrow>
   long_opts (pre @ ps) (''--'' @ l) rest st = long_opts ps (''--'' @ l) rest st"
  by (induction pre) (auto simp: GENERATE_LONG_OPT_def split: option.splits)






text \<open>The required phase reads one token for each descriptor and no more.\<close>

lemma required_phase_more_tokens:
  "length rs \<le> length ts \<Longrightarrow> required_phase rs (ts @ xs) st = required_phase rs ts st"
proof (induction rs ts st rule: required_phase.induct)
  case (1 ts st)
  then show ?case by simp
next
  case (2 r rs st)
  then show ?case by simp
next
  case (3 r rs t ts st)
  then show ?case
    by (auto split: prod.splits)
qed

text \<open>A value-taking option with nothing after it.\<close>

lemma long_opts_last_token:
  "p \<in> set ps \<Longrightarrow> o_longopt p = Some l \<Longrightarrow>
   long_opts ps (''--'' @ l) [] st = (Return (OptionRequiresValue (''--'' @ l)), st)"
  by (induction ps) (auto simp: GENERATE_LONG_OPT_def split: option.splits)




section \<open>The end-to-end example\<close>

text \<open>
  Claim C1. With the schema of \<^verbatim>\<open>01_file_processor.c\<close> (required strings \<^verbatim>\<open>input_file\<close> and
  \<^verbatim>\<open>output_file\<close>, optional unsigned \<^verbatim>\<open>threads\<close> with short \<^verbatim>\<open>t\<close>, long \<^verbatim>\<open>threads\<close> and default
  1, boolean \<^verbatim>\<open>help\<close> with short \<^verbatim>\<open>h\<close>), on either kind of C library: parsing
  \<^verbatim>\<open>prog in.txt out.txt -t4\<close> succeeds with input \<^verbatim>\<open>in.txt\<close>, output \<^verbatim>\<open>out.txt\<close>, threads 4 and
  help false; parsing \<^verbatim>\<open>prog in.txt\<close> fails with \<open>MissingRequiredArgument\<close>; parsing
  \<^verbatim>\<open>prog in.txt out.txt -h\<close> succeeds with help true.
\<close>

theorem C1_file_processor_end_to_end:
  "fst (main_parse (file_processor einval) [''prog'', ''in.txt'', ''out.txt'', ''-t4'']) = None
   \<and> args (snd (main_parse (file_processor einval) [''prog'', ''in.txt'', ''out.txt'', ''-t4'']))
        ''input_file'' = Some (VStr ''in.txt'')
   \<and> args (snd (main_parse (file_processor einval) [''prog'', ''in.txt'', ''out.txt'', ''-t4'']))
        ''output_file'' = Some (VStr ''out.txt'')
   \<and> args (snd (main_parse (file_processor einval) [''prog'', ''in.txt'', ''out.txt'', ''-t4'']))
        ''threads'' = Some (VUInt 4)
   \<and> args (snd (main_parse (file_processor einval) [''prog'', ''in.txt'', ''out.txt'', ''-t4'']))
        ''help'' = Some (VBool False)
   \<and> fst (main_parse (file_processor einval) [''prog'', ''in.txt'']) = Some MissingRequiredArgument
   \<and> fst (main_parse (file_processor einval) [''prog'', ''in.txt'', ''out.txt'', ''-h'']) = None
   \<and> args (snd (main_parse (file_processor einval) [''prog'', ''in.txt'', ''out.txt'', ''-h'']))
        ''help'' = Some (VBool True)
   \<and> args (snd (main_parse (file_processor einval) [''prog'', ''in.txt'', ''out.txt'', ''-h'']))
        ''input_file'' = Some (VStr ''in.txt'')
   \<and> args (snd (main_parse (file_processor einval) [''prog'', ''in.txt'', ''out.txt'', ''-h'']))
        ''output_file'' = Some (VStr ''out.txt'')
   \<and> args (snd (main_parse (file_processor einval) [''prog'', ''in.txt'', ''out.txt'', ''-h'']))
        ''threads'' = Some (VUInt 1)"
  by (simp add: schema_defs engine_defs parser_defs macro_defs)

section \<open>Options without their value\<close>

text \<open>
  Claim C5, as the code has it. When the loop over the options reaches, as its last token,
  \<^verbatim>\<open>--longopt\<close> of a value-taking option, \<^verbatim>\<open>parse_args\<close> returns 1 after the diagnostic
  \<^verbatim>\<open>option '--longopt' requires a value\<close>, and this block stores nothing: the container is as
  the required arguments and the earlier tokens left it. In particular, when the token
  comes right after the required arguments the container is the one the required phase
  produced, and with no required argument it is the one \<^verbatim>\<open>parse_args\<close> was given.
\<close>

theorem C5_long_option_last_token:
  assumes "p \<in> set (OPTIONAL_ARGS sch)" and "o_longopt p = Some l"
  shows "option_loop sch [''--'' @ l] st = (Some (OptionRequiresValue (''--'' @ l)), st)
         \<and> (REQUIRED_ARGS sch = [] \<longrightarrow>
              parse_args sch [prog, ''--'' @ l] st = (Some (OptionRequiresValue (''--'' @ l)), st))
         \<and> (length ts = length (REQUIRED_ARGS sch)
              \<and> required_phase (REQUIRED_ARGS sch) ts st = (None, st1) \<longrightarrow>
              parse_args sch (prog # ts @ [''--'' @ l]) st
                = (Some (OptionRequiresValue (''--'' @ l)), st1))"
proof -
  have a: "option_loop sch [''--'' @ l] st = (Some (OptionRequiresValue (''--'' @ l)), st)" for st
    using long_opts_last_token [OF assms, of st] by simp
  have b: "parse_args sch (prog # ts @ [''--'' @ l]) st
             = (Some (OptionRequiresValue (''--'' @ l)), st1)"
    if "length ts = length (REQUIRED_ARGS sch)"
      and "required_phase (REQUIRED_ARGS sch) ts st = (None, st1)"
    using that a [of st1]
    by (simp add: parse_args_def REQUIRED_ARG_COUNT_def required_phase_more_tokens)
  from a [of st] b show ?thesis
    by (simp add: parse_args_def REQUIRED_ARG_COUNT_def)
qed

theorem C5_long_option_last_token_witness:
  "hd (OPTIONAL_ARGS (shared_letter False)) \<in> set (OPTIONAL_ARGS (shared_letter False))
   \<and> o_longopt (hd (OPTIONAL_ARGS (shared_letter False))) = Some ''threads''
   \<and> REQUIRED_ARGS (shared_letter False) = []
   \<and> main_parse (shared_letter False) [''prog'', ''--threads'']
       = (Some (OptionRequiresValue ''--threads''), initial_state (shared_letter False))
   \<and> hd (OPTIONAL_ARGS (file_processor False)) \<in> set (OPTIONAL_ARGS (file_processor False))
   \<and> o_longopt (hd (OPTIONAL_ARGS (file_processor False))) = Some ''threads''
   \<and> length [''in.txt'', ''out.txt''] = length (REQUIRED_ARGS (file_processor False))
   \<and> required_phase (REQUIRED_ARGS (file_processor False)) [''in.txt'', ''out.txt'']
        (initial_state (file_processor False))
       = (None, store ''output_file'' (VStr ''out.txt'')
                  (store ''input_file'' (VStr ''in.txt'') (initial_state (file_processor False))))
   \<and> main_parse (file_processor False) [''prog'', ''in.txt'', ''out.txt'', ''--threads'']
       = (Some (OptionRequiresValue ''--threads''),
          store ''output_file'' (VStr ''out.txt'')
            (store ''input_file'' (VStr ''in.txt'') (initial_state (file_processor False))))"
  using C5_long_option_last_token
    [where p = "hd (OPTIONAL_ARGS (shared_letter False))" and sch = "shared_letter False"
       and l = "''threads''" and st = "initial_state (shared_letter False)" and prog = "''prog''"
       and ts = "[]" and ?st1.0 = "initial_state (shared_letter False)"]
    C5_long_option_last_token
    [where p = "hd (OPTIONAL_ARGS (file_processor False))" and sch = "file_processor False"
       and l = "''threads''" and st = "initial_state (file_processor False)"
       and prog = "''prog''" and ts = "[''in.txt'', ''out.txt'']"
       and ?st1.0 = "store ''output_file'' (VStr ''out.txt'')
            (store ''input_file'' (VStr ''in.txt'') (initial_state (file_processor False)))"]
  by (simp add: shared_letter_def file_processor_def macro_defs main_parse_def initial_state_def
        call_parser_def store_def parse_str_def)

text \<open>
  The claim as the specification states it fails: in the first example the two required
  fields have been stored by the time the missing value is found, and nothing undoes that.
  And a last token \<^verbatim>\<open>--threads\<close> that the required phase takes as the output file is no
  option at all: that parse succeeds.
\<close>

theorem C5_container_mutated_counterexample:
  "fst (main_parse (file_processor False) [''prog'', ''in.txt'', ''out.txt'', ''--threads''])
     = Some (OptionRequiresValue ''--threads'')
   \<and> args (initial_state (file_processor False)) ''input_file'' = Some VNull
   \<and> args (snd (main_parse (file_processor False) [''prog'', ''in.txt'', ''out.txt'', ''--threads'']))
        ''input_file'' = Some (VStr ''in.txt'')
   \<and> fst (main_parse (file_processor False) [''prog'', ''in.txt'', ''--threads'']) = None"
  by (simp add: schema_defs engine_defs parser_defs macro_defs)




section \<open>The lone marker\<close>

text \<open>
  Claim C10. For every schema, the token \<^verbatim>\<open>-\<close> in the loop over the options matches no long
  option and starts an empty cluster: the loop goes on to the next token with the state it
  had, so no field is stored and no diagnostic is printed, and the parse can still succeed,
  as it does in the first example.
\<close>

theorem C10_lone_marker_is_skipped:
  "flag_loop sch (Some []) st = (None, st)
   \<and> option_loop sch (''-'' # rest) st = option_loop sch rest st
   \<and> main_parse (file_processor einval) [''prog'', ''in.txt'', ''out.txt'', ''-'']
       = main_parse (file_processor einval) [''prog'', ''in.txt'', ''out.txt'']
   \<and> fst (main_parse (file_processor einval) [''prog'', ''in.txt'', ''out.txt'', ''-'']) = None"
proof -
  have "option_loop sch (''-'' # rest) st = option_loop sch rest st" for sch rest st
    by (simp add: long_opts_no_marker long_bools_no_marker)
  then show ?thesis
    by (simp add: schema_defs engine_defs parser_defs macro_defs)
qed

section \<open>Long options whose value is not consumed whole\<close>

text \<open>
  Claim C6, as the code has it. Let \<^verbatim>\<open>--longopt\<close> be the long form of a value-taking option,
  the first one with that long form in the schema, and let its parser store in \<^verbatim>\<open>advance\<close> a
  pointer before the end of the following token. Then \<^verbatim>\<open>parse_args\<close> returns 1: the value is
  never accepted. When the parser returns 0, the diagnostic is \<^verbatim>\<open>couldn't parse argument\<close>,
  the error \<open>TrailingUnparsedInput\<close>; when the parser returns non-zero, its return value is
  tested first and the error is the parser's own, \<open>InvalidValue\<close>.
\<close>

theorem C6_partial_long_value_is_refused:
  assumes "OPTIONAL_ARGS sch = pre @ p # post" and "Some l \<notin> set (map o_longopt pre)"
    and "o_longopt p = Some l"
    and "pr_adv (o_parser p v True (errno st)) = StoredAt k" and "k < length v"
  shows "fst (option_loop sch ((''--'' @ l) # v # rest) st) \<noteq> None
         \<and> (pr_ret (o_parser p v True (errno st)) = 0 \<longrightarrow>
              fst (option_loop sch ((''--'' @ l) # v # rest) st)
                = Some (TrailingUnparsedInput (''--'' @ l) v))
         \<and> (pr_ret (o_parser p v True (errno st)) \<noteq> 0 \<longrightarrow>
              fst (option_loop sch ((''--'' @ l) # v # rest) st)
                = Some (InvalidValue (o_name p) v))"
proof -
  have "long_opts (OPTIONAL_ARGS sch) (''--'' @ l) (v # rest) st
          = long_opts (p # post) (''--'' @ l) (v # rest) st"
    using long_opts_skip [OF assms(2), of "p # post" "v # rest" st] assms(1) by simp
  then show ?thesis
    using assms(3,4,5)
    by (simp add: GENERATE_LONG_OPT_def call_parser_def Let_def)
qed

theorem C6_partial_long_value_is_refused_witness:
  "OPTIONAL_ARGS (file_processor False) = [] @ hd (OPTIONAL_ARGS (file_processor False)) # []
   \<and> Some ''threads'' \<notin> set (map o_longopt [])
   \<and> o_longopt (hd (OPTIONAL_ARGS (file_processor False))) = Some ''threads''
   \<and> pr_adv (o_parser (hd (OPTIONAL_ARGS (file_processor False))) ''4abc'' True
        (errno (initial_state (file_processor False)))) = StoredAt 1
   \<and> (1::nat) < length ''4abc''
   \<and> pr_ret (o_parser (hd (OPTIONAL_ARGS (file_processor False))) ''4abc'' True
        (errno (initial_state (file_processor False)))) = 0
   \<and> fst (option_loop (file_processor False) [''--threads'', ''4abc'']
        (initial_state (file_processor False)))
       = Some (TrailingUnparsedInput ''--threads'' ''4abc'')
   \<and> pr_adv (o_parser (hd (OPTIONAL_ARGS (file_processor False))) ''99999999999999999999x''
        True (errno (initial_state (file_processor False)))) = StoredAt 20
   \<and> (20::nat) < length ''99999999999999999999x''
   \<and> pr_ret (o_parser (hd (OPTIONAL_ARGS (file_processor False))) ''99999999999999999999x''
        True (errno (initial_state (file_processor False)))) = 1
   \<and> fst (option_loop (file_processor False) [''--threads'', ''99999999999999999999x'']
        (initial_state (file_processor False)))
       = Some (InvalidValue ''threads'' ''99999999999999999999x'')"
  using C6_partial_long_value_is_refused
    [of "file_processor False" "[]" "hd (OPTIONAL_ARGS (file_processor False))" "[]"
        "''threads''" "''4abc''" "initial_state (file_processor False)" 1 "[]"]
    C6_partial_long_value_is_refused
    [of "file_processor False" "[]" "hd (OPTIONAL_ARGS (file_processor False))" "[]"
        "''threads''" "''99999999999999999999x''" "initial_state (file_processor False)" 20 "[]"]
  by (simp add: file_processor_def macro_defs initial_state_def parser_defs)

text \<open>
  The claim as the specification states it fails: for the value \<^verbatim>\<open>99999999999999999999x\<close> of
  \<^verbatim>\<open>--threads\<close> the parser stores an end pointer before the end of the token, yet the parse
  fails with the parser's own error, the number being out of range, and not with
  \<open>TrailingUnparsedInput\<close>.
\<close>

theorem C6_parser_error_comes_first_counterexample:
  "pr_adv (parse_uint False ''99999999999999999999x'' True 0) = StoredAt 20
   \<and> (20::nat) < length ''99999999999999999999x''
   \<and> fst (main_parse (file_processor False)
        [''prog'', ''in.txt'', ''out.txt'', ''--threads'', ''99999999999999999999x''])
       = Some (InvalidValue ''threads'' ''99999999999999999999x'')"
  by (simp add: schema_defs engine_defs parser_defs macro_defs)

section \<open>The order of the tests in a cluster\<close>




text \<open>
  An iteration does not start again behind a value that leaves part of the token: the next
  character is tested only against the descriptors declared after the option just read. With
  \<^verbatim>\<open>t\<close> declared before \<^verbatim>\<open>a\<close>, the cluster \<^verbatim>\<open>-t1a2\<close> is read whole, while in \<^verbatim>\<open>-a1t2\<close> the
  character \<^verbatim>\<open>t\<close> is an invalid flag.
\<close>

lemma later_options_only_behind_a_value:
  "fst (main_parse (two_values einval) [''prog'', ''-t1a2'']) = None
   \<and> args (snd (main_parse (two_values einval) [''prog'', ''-t1a2''])) ''t'' = Some (VUInt 1)
   \<and> args (snd (main_parse (two_values einval) [''prog'', ''-t1a2''])) ''a'' = Some (VUInt 2)
   \<and> fst (main_parse (two_values einval) [''prog'', ''-a1t2'']) = Some (UnknownFlag ''t2'')
   \<and> fst (main_parse (two_values einval) [''prog'', ''-t1a''])
       = Some (OptionRequiresValue ''-a'')
   \<and> fst (main_parse (two_values einval) [''prog'', ''-a1t'']) = Some (UnknownFlag ''t'')"
  by (simp add: schema_defs engine_defs parser_defs macro_defs)

section \<open>A required integer that is not a number\<close>

text \<open>
  Claim C3 on the code. With one required \<^verbatim>\<open>int\<close> argument and a C library that leaves
  \<^verbatim>\<open>errno\<close> alone when nothing is converted, \<^verbatim>\<open>prog abc\<close> is accepted and the field is 0: the
  parser tests \<^verbatim>\<open>errno\<close> only, and the end pointer is not asked for. Where the library sets
  \<^verbatim>\<open>EINVAL\<close> the parse fails as the claim says. The same text as the value of the long option
  \<^verbatim>\<open>--threads\<close> is refused on either library, by the test of the end pointer.
\<close>

theorem C3_abc_is_accepted_as_zero:
  "fst (main_parse (single_int False) [''prog'', ''abc'']) = None
   \<and> args (snd (main_parse (single_int False) [''prog'', ''abc''])) ''count'' = Some (VInt 0)
   \<and> fst (main_parse (single_int True) [''prog'', ''abc''])
       = Some (InvalidValue ''count'' ''abc'')
   \<and> fst (main_parse (file_processor einval)
        [''prog'', ''in.txt'', ''out.txt'', ''--threads'', ''abc''])
       \<noteq> None"
  by (simp add: schema_defs engine_defs parser_defs macro_defs)

section \<open>A cluster of two booleans and a value\<close>

text \<open>
  Claim C4. With the boolean short flags \<^verbatim>\<open>v\<close> and \<^verbatim>\<open>x\<close> and the unsigned short option
  \<^verbatim>\<open>t\<close>, the token \<^verbatim>\<open>-vxt4\<close> sets \<^verbatim>\<open>v\<close> and \<^verbatim>\<open>x\<close> to true and \<^verbatim>\<open>t\<close> to 4, and the parse succeeds.
\<close>

theorem C4_cluster_vxt4:
  "fst (main_parse (cluster_flags einval) [''prog'', ''-vxt4'']) = None
   \<and> args (snd (main_parse (cluster_flags einval) [''prog'', ''-vxt4''])) ''v''
       = Some (VBool True)
   \<and> args (snd (main_parse (cluster_flags einval) [''prog'', ''-vxt4''])) ''x''
       = Some (VBool True)
   \<and> args (snd (main_parse (cluster_flags einval) [''prog'', ''-vxt4''])) ''t''
       = Some (VUInt 4)"
  by (simp add: schema_defs engine_defs parser_defs macro_defs)

section \<open>Required numbers followed by other text\<close>

lemma digits_value_Nil: "digits_value [] = 0"
  by (simp add: digits_value_def)

lemma digits_value_snoc: "digits_value (ds @ [d]) = 10 * digits_value ds + (of_char d - 48)"
  by (simp add: digits_value_def)

lemma isdigit_not_space: "isdigit c \<Longrightarrow> \<not> isspace c"
  by (auto simp: isdigit_def isspace_def)

lemma sign_not_space: "c = CHR ''-'' \<or> c = CHR ''+'' \<Longrightarrow> \<not> isspace c"
  by (auto simp: isspace_def)

lemma isdigit_not_sign: "isdigit c \<Longrightarrow> c \<noteq> CHR ''-'' \<and> c \<noteq> CHR ''+''"
  by (auto simp: isdigit_def)

lemma subject_of_number:
  assumes ws: "list_all isspace ws" and sg: "sg = [] \<or> sg = ''-'' \<or> sg = ''+''"
    and ds: "ds \<noteq> []" "list_all isdigit ds" and tr: "takeWhile isdigit tr = []"
  shows "subject_of (ws @ sg @ ds @ tr)
           = \<lparr>sj_neg = (sg = ''-''), sj_digits = ds,
              sj_end = length ws + length sg + length ds\<rparr>"
proof -
  obtain d ds' where dd: "ds = d # ds'"
    using ds(1) by (cases ds) auto
  have d: "isdigit d"
    using ds(2) dd by simp
  have tw: "takeWhile isdigit (ds @ tr) = ds"
    using ds(2) tr by (simp add: takeWhile_append2 list_all_iff)
  have hd: "sg @ ds @ tr \<noteq> [] \<and> \<not> isspace (hd (sg @ ds @ tr))"
    using sg d dd isdigit_not_space by (auto simp: isspace_def)
  have all: "\<forall>x\<in>set ws. isspace x"
    using ws by (simp add: list_all_iff)
  have t: "takeWhile isspace (ws @ sg @ ds @ tr) = ws"
    using all hd by (cases "sg @ ds @ tr") (auto simp: takeWhile_append2)
  have dr: "dropWhile isspace (ws @ sg @ ds @ tr) = sg @ ds @ tr"
    using all hd by (cases "sg @ ds @ tr") (auto simp: dropWhile_append2)
  from sg show ?thesis
  proof (elim disjE)
    assume "sg = []"
    then show ?thesis
      using t dr tw isdigit_not_sign [OF d] ds(1)
      unfolding subject_of_def Let_def by (simp add: dd)
  next
    assume "sg = ''-''"
    then show ?thesis
      using t dr tw ds(1)
      unfolding subject_of_def Let_def by simp
  next
    assume "sg = ''+''"
    then show ?thesis
      using t dr tw ds(1)
      unfolding subject_of_def Let_def by simp
  qed
qed

lemma strtol_number:
  assumes "list_all isspace ws" and "sg = [] \<or> sg = ''-'' \<or> sg = ''+''"
    and "ds \<noteq> []" and "list_all isdigit ds" and "takeWhile isdigit tr = []"
    and "m = (if sg = ''-'' then - int (digits_value ds) else int (digits_value ds))"
    and "- (2 ^ 63) \<le> m" and "m < 2 ^ 63"
  shows "strtol einval (ws @ sg @ ds @ tr)
           = \<lparr>cv_val = word_of_int m, cv_end = length ws + length sg + length ds,
              cv_errno = None\<rparr>"
proof -
  note sj = subject_of_number [OF assms(1-5)]
  have "\<not> m > 2 ^ 63 - 1" and "\<not> m < - (2 ^ 63)"
    using assms(7,8) by simp_all
  then show ?thesis
    unfolding strtol_def Let_def sj
    using assms(3,6) by (auto split: if_splits)
qed

lemma strtoul_number:
  assumes "list_all isspace ws" and "sg = [] \<or> sg = ''+''"
    and "ds \<noteq> []" and "list_all isdigit ds" and "takeWhile isdigit tr = []"
    and "digits_value ds < 2 ^ 64"
  shows "strtoul einval (ws @ sg @ ds @ tr)
           = \<lparr>cv_val = word_of_nat (digits_value ds),
              cv_end = length ws + length sg + length ds, cv_errno = None\<rparr>"
proof -
  have sg: "sg = [] \<or> sg = ''-'' \<or> sg = ''+''" and neg: "sg \<noteq> ''-''"
    using assms(2) by auto
  note sj = subject_of_number [OF assms(1) sg assms(3-5)]
  have "\<not> int (digits_value ds) > 2 ^ 64 - 1"
    using assms(6) by (simp add: not_less)
  then show ?thesis
    unfolding strtoul_def Let_def sj
    using assms(3) neg by simp
qed

lemma ucast_word_of_int: "(ucast (word_of_int m :: 64 word) :: 32 word) = word_of_int m"
  by (simp add: unsigned_of_int word_of_int_eq_iff min_def)

lemma ucast_word_of_nat: "(ucast (word_of_nat n :: 64 word) :: 32 word) = word_of_nat n"
  using ucast_word_of_int [of "int n"] by simp

lemma sint32: "- (2 ^ 31) \<le> m \<Longrightarrow> m < 2 ^ 31 \<Longrightarrow> sint (word_of_int m :: 32 word) = m"
  by (simp add: signed_of_int signed_take_bit_int_eq_self)

lemma sint64: "- (2 ^ 63) \<le> m \<Longrightarrow> m < 2 ^ 63 \<Longrightarrow> sint (word_of_int m :: 64 word) = m"
  by (simp add: signed_of_int signed_take_bit_int_eq_self)

lemma unat32: "n < 2 ^ 32 \<Longrightarrow> unat (word_of_nat n :: 32 word) = n"
  by (simp add: unsigned_of_nat take_bit_nat_eq_self)

lemma unat64: "n < 2 ^ 64 \<Longrightarrow> unat (word_of_nat n :: 64 word) = n"
  by (simp add: unsigned_of_nat take_bit_nat_eq_self)

lemma number_parser_accepts:
  assumes "cv_errno (func tok) = None" and "errno st = 0"
    and "r_parser r = NUMBER_PARSER cast func"
  shows "required_phase (r # rs) (tok # ts) st
           = required_phase rs ts (store (r_name r) (cast (cv_val (func tok))) st)"
  using assms by (cases st) (simp add: call_parser_def NUMBER_PARSER_def store_def)

lemma float_parser_accepts:
  assumes "cv_errno (func tok) = None" and "errno st = 0"
    and "r_parser r = FLOAT_PARSER cast func"
  shows "required_phase (r # rs) (tok # ts) st
           = required_phase rs ts (store (r_name r) (cast (cv_val (func tok))) st)"
  using assms by (cases st) (simp add: call_parser_def FLOAT_PARSER_def store_def)

text \<open>
  Claim C9, as the code has it. A required descriptor's parser is called with \<^verbatim>\<open>NULL\<close> as
  \<^verbatim>\<open>advance\<close>, and the numeric parsers look at \<^verbatim>\<open>errno\<close> only, which is zero at the call. Let
  the token be white space (possibly none), an optional sign, a non-empty run of digits and
  then any text that does not start with a digit, and let \<open>m\<close> be the signed value of the
  digits. For \<^verbatim>\<open>parse_int\<close>, \<^verbatim>\<open>parse_l\<close> and \<^verbatim>\<open>parse_ll\<close> with \<open>m\<close> in the range of the field's
  type, and for \<^verbatim>\<open>parse_uint\<close>, \<^verbatim>\<open>parse_ul\<close> and \<^verbatim>\<open>parse_ull\<close> with no minus sign and the value
  in the range of the field's type, the token is accepted and the field holds exactly that
  value; the phase goes on to the next required argument. For \<^verbatim>\<open>parse_f\<close>, \<^verbatim>\<open>parse_d\<close> and
  \<^verbatim>\<open>parse_ld\<close> the token is accepted whenever the conversion of the C library sets no
  \<^verbatim>\<open>errno\<close>, wherever its end pointer stops, and the field holds the value the conversion
  returned. The value of a run of digits is the decimal one: nothing for the empty run, and
  ten times the value of the run before the last digit plus that digit. With one required \<^verbatim>\<open>int\<close>,
  \<^verbatim>\<open>prog 4abc\<close> gives 4, \<^verbatim>\<open>prog 1234abc\<close> gives 1234 and \<^verbatim>\<open>prog " -56x"\<close> gives -56.
\<close>

theorem C9_required_number_in_range:
  assumes "list_all isspace ws" and "ds \<noteq> []" and "list_all isdigit ds"
    and "takeWhile isdigit tr = []" and "errno st = 0"
    and "m = (if sg = ''-'' then - int (digits_value ds) else int (digits_value ds))"
  shows "((sg = [] \<or> sg = ''-'' \<or> sg = ''+'') \<and> r_parser r = parse_int einval
       \<and> - (2 ^ 31) \<le> m \<and> m < 2 ^ 31 \<longrightarrow>
       required_phase (r # rs) ((ws @ sg @ ds @ tr) # ts) st
         = required_phase rs ts (store (r_name r) (VInt (word_of_int m)) st)
       \<and> sint (word_of_int m :: 32 word) = m)
     \<and> ((sg = [] \<or> sg = ''-'' \<or> sg = ''+'') \<and> r_parser r = parse_l einval
       \<and> - (2 ^ 63) \<le> m \<and> m < 2 ^ 63 \<longrightarrow>
       required_phase (r # rs) ((ws @ sg @ ds @ tr) # ts) st
         = required_phase rs ts (store (r_name r) (VLong (word_of_int m)) st)
       \<and> sint (word_of_int m :: 64 word) = m)
     \<and> ((sg = [] \<or> sg = ''-'' \<or> sg = ''+'') \<and> r_parser r = parse_ll einval
       \<and> - (2 ^ 63) \<le> m \<and> m < 2 ^ 63 \<longrightarrow>
       required_phase (r # rs) ((ws @ sg @ ds @ tr) # ts) st
         = required_phase rs ts (store (r_name r) (VLLong (word_of_int m)) st)
       \<and> sint (word_of_int m :: 64 word) = m)
     \<and> ((sg = [] \<or> sg = ''+'') \<and> r_parser r = parse_uint einval
       \<and> digits_value ds < 2 ^ 32 \<longrightarrow>
       required_phase (r # rs) ((ws @ sg @ ds @ tr) # ts) st
         = required_phase rs ts (store (r_name r) (VUInt (word_of_nat (digits_value ds))) st)
       \<and> unat (word_of_nat (digits_value ds) :: 32 word) = digits_value ds)
     \<and> ((sg = [] \<or> sg = ''+'') \<and> r_parser r = parse_ul einval
       \<and> digits_value ds < 2 ^ 64 \<longrightarrow>
       required_phase (r # rs) ((ws @ sg @ ds @ tr) # ts) st
         = required_phase rs ts (store (r_name r) (VULong (word_of_nat (digits_value ds))) st)
       \<and> unat (word_of_nat (digits_value ds) :: 64 word) = digits_value ds)
     \<and> ((sg = [] \<or> sg = ''+'') \<and> r_parser r = parse_ull einval
       \<and> digits_value ds < 2 ^ 64 \<longrightarrow>
       required_phase (r # rs) ((ws @ sg @ ds @ tr) # ts) st
         = required_phase rs ts (store (r_name r) (VULLong (word_of_nat (digits_value ds))) st)
       \<and> unat (word_of_nat (digits_value ds) :: 64 word) = digits_value ds)
     \<and> (r_parser r = parse_f strtof \<and> cv_errno (strtof tok) = None \<longrightarrow>
       required_phase (r # rs) (tok # ts) st
         = required_phase rs ts (store (r_name r) (VFloat (cv_val (strtof tok))) st))
     \<and> (r_parser r = parse_d strtod \<and> cv_errno (strtod tok) = None \<longrightarrow>
       required_phase (r # rs) (tok # ts) st
         = required_phase rs ts (store (r_name r) (VDouble (cv_val (strtod tok))) st))
     \<and> (r_parser r = parse_ld strtold \<and> cv_errno (strtold tok) = None \<longrightarrow>
       required_phase (r # rs) (tok # ts) st
         = required_phase rs ts (store (r_name r) (VLongDouble (cv_val (strtold tok))) st))
     \<and> digits_value [] = 0
     \<and> digits_value (xs @ [d]) = 10 * digits_value xs + (of_char d - 48)
     \<and> digits_value ''9876543210'' = 9876543210
     \<and> fst (main_parse (single_int einval) [''prog'', ''4abc'']) = None
     \<and> args (snd (main_parse (single_int einval) [''prog'', ''4abc''])) ''count''
         = Some (VInt 4)
     \<and> fst (main_parse (single_int einval) [''prog'', ''1234abc'']) = None
     \<and> args (snd (main_parse (single_int einval) [''prog'', ''1234abc''])) ''count''
         = Some (VInt 1234)
     \<and> fst (main_parse (single_int einval) [''prog'', '' -56x'']) = None
     \<and> args (snd (main_parse (single_int einval) [''prog'', '' -56x''])) ''count''
         = Some (VInt (- 56))"
proof -
  let ?tok = "ws @ sg @ ds @ tr"
  have signed: "required_phase (r # rs) (?tok # ts) st
                  = required_phase rs ts (store (r_name r) (cast (word_of_int m)) st)"
    if "sg = [] \<or> sg = ''-'' \<or> sg = ''+''" and "- (2 ^ 63) \<le> m" and "m < 2 ^ 63"
      and "r_parser r = NUMBER_PARSER cast (strtol einval)" for cast
  proof -
    note c = strtol_number [OF assms(1) that(1) assms(2-4) assms(6) that(2,3), of einval]
    have "cv_errno (strtol einval ?tok) = None"
      by (simp only: c conv.simps)
    from number_parser_accepts [OF this assms(5) that(4), of rs ts] show ?thesis
      by (simp only: c conv.simps)
  qed
  have unsigned: "required_phase (r # rs) (?tok # ts) st
                    = required_phase rs ts
                        (store (r_name r) (cast (word_of_nat (digits_value ds))) st)"
    if "sg = [] \<or> sg = ''+''" and "digits_value ds < 2 ^ 64"
      and "r_parser r = NUMBER_PARSER cast (strtoul einval)" for cast
  proof -
    note c = strtoul_number [OF assms(1) that(1) assms(2-4) that(2), of einval]
    have "cv_errno (strtoul einval ?tok) = None"
      by (simp only: c conv.simps)
    from number_parser_accepts [OF this assms(5) that(3), of rs ts] show ?thesis
      by (simp only: c conv.simps)
  qed
  have int: "required_phase (r # rs) (?tok # ts) st
               = required_phase rs ts (store (r_name r) (VInt (word_of_int m)) st)
             \<and> sint (word_of_int m :: 32 word) = m"
    if "sg = [] \<or> sg = ''-'' \<or> sg = ''+''" and "r_parser r = parse_int einval"
      and "- (2 ^ 31) \<le> m" and "m < 2 ^ 31"
  proof -
    have "- (2 ^ 63) \<le> m" and "m < 2 ^ 63"
      using that(3,4) by simp_all
    from signed [OF that(1) this, of "\<lambda>w. VInt (ucast w)"] that(2) sint32 [OF that(3,4)]
    show ?thesis
      by (simp add: parse_int_def ucast_word_of_int)
  qed
  have long: "required_phase (r # rs) (?tok # ts) st
                = required_phase rs ts (store (r_name r) (VLong (word_of_int m)) st)
              \<and> sint (word_of_int m :: 64 word) = m"
    if "sg = [] \<or> sg = ''-'' \<or> sg = ''+''" and "r_parser r = parse_l einval"
      and "- (2 ^ 63) \<le> m" and "m < 2 ^ 63"
    using signed [OF that(1,3,4), of VLong] that(2) sint64 [OF that(3,4)]
    by (simp add: parse_l_def)
  have llong: "required_phase (r # rs) (?tok # ts) st
                 = required_phase rs ts (store (r_name r) (VLLong (word_of_int m)) st)
               \<and> sint (word_of_int m :: 64 word) = m"
    if "sg = [] \<or> sg = ''-'' \<or> sg = ''+''" and "r_parser r = parse_ll einval"
      and "- (2 ^ 63) \<le> m" and "m < 2 ^ 63"
    using signed [OF that(1,3,4), of VLLong] that(2) sint64 [OF that(3,4)]
    by (simp add: parse_ll_def strtoll_def)
  have uint: "required_phase (r # rs) (?tok # ts) st
                = required_phase rs ts
                    (store (r_name r) (VUInt (word_of_nat (digits_value ds))) st)
              \<and> unat (word_of_nat (digits_value ds) :: 32 word) = digits_value ds"
    if "sg = [] \<or> sg = ''+''" and "r_parser r = parse_uint einval"
      and "digits_value ds < 2 ^ 32"
  proof -
    have "digits_value ds < 2 ^ 64"
      using that(3) by simp
    from unsigned [OF that(1) this, of "\<lambda>w. VUInt (ucast w)"] that(2) unat32 [OF that(3)]
    show ?thesis
      by (simp add: parse_uint_def ucast_word_of_nat)
  qed
  have ulong: "required_phase (r # rs) (?tok # ts) st
                 = required_phase rs ts
                     (store (r_name r) (VULong (word_of_nat (digits_value ds))) st)
               \<and> unat (word_of_nat (digits_value ds) :: 64 word) = digits_value ds"
    if "sg = [] \<or> sg = ''+''" and "r_parser r = parse_ul einval"
      and "digits_value ds < 2 ^ 64"
    using unsigned [OF that(1,3), of VULong] that(2) unat64 [OF that(3)]
    by (simp add: parse_ul_def)
  have ullong: "required_phase (r # rs) (?tok # ts) st
                  = required_phase rs ts
                      (store (r_name r) (VULLong (word_of_nat (digits_value ds))) st)
                \<and> unat (word_of_nat (digits_value ds) :: 64 word) = digits_value ds"
    if "sg = [] \<or> sg = ''+''" and "r_parser r = parse_ull einval"
      and "digits_value ds < 2 ^ 64"
    using unsigned [OF that(1,3), of VULLong] that(2) unat64 [OF that(3)]
    by (simp add: parse_ull_def strtoull_def)
  have f: "required_phase (r # rs) (tok # ts) st
             = required_phase rs ts (store (r_name r) (VFloat (cv_val (strtof tok))) st)"
    if "r_parser r = parse_f strtof" and "cv_errno (strtof tok) = None"
    using float_parser_accepts [where func = strtof and tok = tok and cast = VFloat and r = r
        and rs = rs and ts = ts, OF that(2) assms(5)] that(1)
    by (simp add: parse_f_def)
  have d: "required_phase (r # rs) (tok # ts) st
             = required_phase rs ts (store (r_name r) (VDouble (cv_val (strtod tok))) st)"
    if "r_parser r = parse_d strtod" and "cv_errno (strtod tok) = None"
    using float_parser_accepts [where func = strtod and tok = tok and cast = VDouble and r = r
        and rs = rs and ts = ts, OF that(2) assms(5)] that(1)
    by (simp add: parse_d_def)
  have ld: "required_phase (r # rs) (tok # ts) st
              = required_phase rs ts
                  (store (r_name r) (VLongDouble (cv_val (strtold tok))) st)"
    if "r_parser r = parse_ld strtold" and "cv_errno (strtold tok) = None"
    using float_parser_accepts [where func = strtold and tok = tok and cast = VLongDouble and r = r
        and rs = rs and ts = ts, OF that(2) assms(5)] that(1)
    by (simp add: parse_ld_def)
  have c1: "(sg = [] \<or> sg = ''-'' \<or> sg = ''+'') \<and> r_parser r = parse_int einval
       \<and> - (2 ^ 31) \<le> m \<and> m < 2 ^ 31 \<longrightarrow>
       required_phase (r # rs) ((ws @ sg @ ds @ tr) # ts) st
         = required_phase rs ts (store (r_name r) (VInt (word_of_int m)) st)
       \<and> sint (word_of_int m :: 32 word) = m"
    using int by blast
  have c2: "(sg = [] \<or> sg = ''-'' \<or> sg = ''+'') \<and> r_parser r = parse_l einval
       \<and> - (2 ^ 63) \<le> m \<and> m < 2 ^ 63 \<longrightarrow>
       required_phase (r # rs) ((ws @ sg @ ds @ tr) # ts) st
         = required_phase rs ts (store (r_name r) (VLong (word_of_int m)) st)
       \<and> sint (word_of_int m :: 64 word) = m"
    using long by blast
  have c3: "(sg = [] \<or> sg = ''-'' \<or> sg = ''+'') \<and> r_parser r = parse_ll einval
       \<and> - (2 ^ 63) \<le> m \<and> m < 2 ^ 63 \<longrightarrow>
       required_phase (r # rs) ((ws @ sg @ ds @ tr) # ts) st
         = required_phase rs ts (store (r_name r) (VLLong (word_of_int m)) st)
       \<and> sint (word_of_int m :: 64 word) = m"
    using llong by blast
  have c4: "(sg = [] \<or> sg = ''+'') \<and> r_parser r = parse_uint einval
       \<and> digits_value ds < 2 ^ 32 \<longrightarrow>
       required_phase (r # rs) ((ws @ sg @ ds @ tr) # ts) st
         = required_phase rs ts (store (r_name r) (VUInt (word_of_nat (digits_value ds))) st)
       \<and> unat (word_of_nat (digits_value ds) :: 32 word) = digits_value ds"
    using uint by blast
  have c5: "(sg = [] \<or> sg = ''+'') \<and> r_parser r = parse_ul einval
       \<and> digits_value ds < 2 ^ 64 \<longrightarrow>
       required_phase (r # rs) ((ws @ sg @ ds @ tr) # ts) st
         = required_phase rs ts (store (r_name r) (VULong (word_of_nat (digits_value ds))) st)
       \<and> unat (word_of_nat (digits_value ds) :: 64 word) = digits_value ds"
    using ulong by blast
  have c6: "(sg = [] \<or> sg = ''+'') \<and> r_parser r = parse_ull einval
       \<and> digits_value ds < 2 ^ 64 \<longrightarrow>
       required_phase (r # rs) ((ws @ sg @ ds @ tr) # ts) st
         = required_phase rs ts (store (r_name r) (VULLong (word_of_nat (digits_value ds))) st)
       \<and> unat (word_of_nat (digits_value ds) :: 64 word) = digits_value ds"
    using ullong by blast
  have c7: "r_parser r = parse_f strtof \<and> cv_errno (strtof tok) = None \<longrightarrow>
       required_phase (r # rs) (tok # ts) st
         = required_phase rs ts (store (r_name r) (VFloat (cv_val (strtof tok))) st)"
    using f by blast
  have c8: "r_parser r = parse_d strtod \<and> cv_errno (strtod tok) = None \<longrightarrow>
       required_phase (r # rs) (tok # ts) st
         = required_phase rs ts (store (r_name r) (VDouble (cv_val (strtod tok))) st)"
    using d by blast
  have c9: "r_parser r = parse_ld strtold \<and> cv_errno (strtold tok) = None \<longrightarrow>
       required_phase (r # rs) (tok # ts) st
         = required_phase rs ts (store (r_name r) (VLongDouble (cv_val (strtold tok))) st)"
    using ld by blast
  have c10: "digits_value [] = 0"
    by (rule digits_value_Nil)
  have c11: "digits_value (xs @ [d]) = 10 * digits_value xs + (of_char d - 48)"
    by (rule digits_value_snoc [of xs d])
  have c12: "fst (main_parse (single_int einval) [''prog'', ''4abc'']) = None"
    by (simp add: schema_defs engine_defs parser_defs macro_defs)
  have c13: "args (snd (main_parse (single_int einval) [''prog'', ''4abc''])) ''count''
         = Some (VInt 4)"
    by (simp add: schema_defs engine_defs parser_defs macro_defs)
  have c14: "fst (main_parse (single_int einval) [''prog'', ''1234abc'']) = None"
    by (simp add: schema_defs engine_defs parser_defs macro_defs)
  have c15: "args (snd (main_parse (single_int einval) [''prog'', ''1234abc''])) ''count''
         = Some (VInt 1234)"
    by (simp add: schema_defs engine_defs parser_defs macro_defs)
  have c16: "fst (main_parse (single_int einval) [''prog'', '' -56x'']) = None"
    by (simp add: schema_defs engine_defs parser_defs macro_defs)
  have c17: "args (snd (main_parse (single_int einval) [''prog'', '' -56x''])) ''count''
         = Some (VInt (- 56))"
    by (simp add: schema_defs engine_defs parser_defs macro_defs)
  have c18: "digits_value ''9876543210'' = 9876543210"
    by (simp add: digits_value_def)
  show ?thesis
    by (intro conjI; fact)
qed

theorem C9_required_number_in_range_witness:
  "list_all isspace '' '' \<and> ''56'' \<noteq> [] \<and> list_all isdigit ''56''
   \<and> takeWhile isdigit ''x'' = [] \<and> errno (initial_state (single_int False)) = 0
   \<and> r_parser (REQUIRED_INT_ARG False ''count'' ''count'' ''A number'') = parse_int False
   \<and> - (2 ^ 31) \<le> - int (digits_value ''56'') \<and> - int (digits_value ''56'') < 2 ^ 31
   \<and> required_phase [REQUIRED_INT_ARG False ''count'' ''count'' ''A number''] ['' -56x'']
        (initial_state (single_int False))
       = (None, store ''count'' (VInt (- 56)) (initial_state (single_int False)))
   \<and> sint (- 56 :: 32 word) = - 56
   \<and> r_parser (REQUIRED_UINT_ARG False ''n'' ''n'' ''A number'') = parse_uint False
   \<and> digits_value ''789'' < 2 ^ 32
   \<and> required_phase [REQUIRED_UINT_ARG False ''n'' ''n'' ''A number''] [''+789 k'']
        (initial_state (single_int False))
       = (None, store ''n'' (VUInt 789) (initial_state (single_int False)))
   \<and> unat (789 :: 32 word) = 789
   \<and> r_parser (REQUIRED_DOUBLE_ARG
        (\<lambda>t. \<lparr>cv_val = 0x3FF8000000000000, cv_end = 3, cv_errno = None\<rparr>)
        ''x'' ''x'' ''A number'')
       = parse_d (\<lambda>t. \<lparr>cv_val = 0x3FF8000000000000, cv_end = 3, cv_errno = None\<rparr>)
   \<and> required_phase
        [REQUIRED_DOUBLE_ARG (\<lambda>t. \<lparr>cv_val = 0x3FF8000000000000, cv_end = 3, cv_errno = None\<rparr>)
           ''x'' ''x'' ''A number'']
        [''1.5abc''] (initial_state (single_int False))
       = (None, store ''x'' (VDouble 0x3FF8000000000000) (initial_state (single_int False)))"
  using C9_required_number_in_range
    [where ws = "'' ''" and ds = "''56''" and tr = "''x''" and sg = "''-''"
       and st = "initial_state (single_int False)" and m = "- 56"
       and r = "REQUIRED_INT_ARG False ''count'' ''count'' ''A number''" and einval = False
       and rs = "[]" and ts = "[]"]
    C9_required_number_in_range
    [where ws = "[]" and ds = "''789''" and tr = "'' k''" and sg = "''+''"
       and st = "initial_state (single_int False)" and m = "789"
       and r = "REQUIRED_UINT_ARG False ''n'' ''n'' ''A number''" and einval = False
       and rs = "[]" and ts = "[]"]
    C9_required_number_in_range
    [where ws = "[]" and ds = "''1''" and tr = "''.5abc''" and sg = "[]"
       and st = "initial_state (single_int False)" and m = "1"
       and r = "REQUIRED_DOUBLE_ARG
                  (\<lambda>t. \<lparr>cv_val = 0x3FF8000000000000, cv_end = 3, cv_errno = None\<rparr>)
                  ''x'' ''x'' ''A number''"
       and strtod = "\<lambda>t. \<lparr>cv_val = 0x3FF8000000000000, cv_end = 3, cv_errno = None\<rparr>"
       and tok = "''1.5abc''" and rs = "[]" and ts = "[]"]
  by (simp add: macro_defs initial_state_def isdigit_def isspace_def digits_value_def)

text \<open>
  The claim as the specification states it fails outside these ranges. With one required
  \<^verbatim>\<open>int\<close>, the prefix of \<^verbatim>\<open>4294967300abc\<close> has the value 4294967300, the token is accepted and
  the field is 4; and \<^verbatim>\<open>99999999999999999999abc\<close> is not accepted at all, the conversion
  setting \<^verbatim>\<open>ERANGE\<close>.
\<close>

theorem C9_prefix_out_of_range_counterexample:
  "digits_value ''4294967300'' = 4294967300
   \<and> fst (main_parse (single_int False) [''prog'', ''4294967300abc'']) = None
   \<and> args (snd (main_parse (single_int False) [''prog'', ''4294967300abc''])) ''count''
       = Some (VInt 4)
   \<and> fst (main_parse (single_int False) [''prog'', ''99999999999999999999abc''])
       = Some (InvalidValue ''count'' ''99999999999999999999abc'')"
  by (simp add: schema_defs engine_defs parser_defs macro_defs)

section \<open>How often a field is written\<close>



lemma grows_mono: "grows A st st' \<Longrightarrow> A \<subseteq> B \<Longrightarrow> grows B st st'"
  by (auto simp: grows_def)

















end
